theory Spec2Isabelle
  imports Complex_Main
begin

section \<open>The ghost enemy of \<^verbatim>\<open>src/components/EnemyGhost.jsx\<close>\<close>

text \<open>
  The component \<^verbatim>\<open>GhostFollow\<close> is a React function component. Its behaviour lives
  in its closures: \<^verbatim>\<open>play\<close>, \<^verbatim>\<open>startVanish\<close>, \<^verbatim>\<open>handleHit\<close>, the body given to
  \<^verbatim>\<open>useFrame\<close>, the two \<^verbatim>\<open>useEffect\<close> bodies, the intersection handler and the
  callback handed to \<^verbatim>\<open>setTimeout\<close>. Each closure is embedded as a function from the
  component's state to its next state.

  Conventions of the embedding:
  \<^item> a JavaScript number is an IEEE 754 double: a finite value, an infinity or NaN, with
    every arithmetic operation rounded to nearest, ties to even, and overflowing to an
    infinity. Negative zero is identified with zero: the component never divides by a
    zero it computed (\<^verbatim>\<open>length() || 1\<close>, \<^verbatim>\<open>hp / MAX_HP\<close>), which is the only place the two
    could be told apart;
  \<^item> the state setters take effect at once in the state (the functional update of
    \<^verbatim>\<open>setHp\<close> chains on the latest value), but a closure reads the \<^verbatim>\<open>const\<close>s of the
    render that created it. The host delivers one event at a time and React commits
    between two events; the intersections of one physics step are one event, drained by
    the handler of one render, so that \<^verbatim>\<open>startVanish\<close> takes the \<^verbatim>\<open>vanishing\<close> its
    closure captured as an argument;
  \<^item> what a handler reads from its surroundings (the two refs, the clocks, the clip
    table, the \<^verbatim>\<open>onDead\<close> prop of its render) is an argument, the record \<open>env\<close>;
  \<^item> every call the component makes on a collaborator is appended to \<open>trace\<close>, in
    program order.
\<close>

subsection \<open>Numbers\<close>

datatype number = Num real | PosInf | NegInf | NaN

text \<open>Rounding a real to the nearest integer, a tie going to the even one.\<close>

definition round_half_even :: "real \<Rightarrow> int" where
  "round_half_even q =
     (let f = \<lfloor>q\<rfloor>
      in if q - of_int f < 1 / 2 then f
         else if 1 / 2 < q - of_int f then f + 1
         else if even f then f else f + 1)"

text \<open>The exponent of the last place of a double near \<open>x\<close>: 53 significant bits, and
  never below the subnormal spacing \<open>2 powi -1074\<close>.\<close>

definition ulp_exponent :: "real \<Rightarrow> int" where
  "ulp_exponent x = max (\<lfloor>log 2 \<bar>x\<bar>\<rfloor> - 52) (- 1074)"

text \<open>The double nearest to a real; a result of magnitude \<open>2 ^ 1024\<close> or more is an
  infinity.\<close>

definition round64 :: "real \<Rightarrow> number" where
  "round64 x =
     (if x = 0 then Num 0
      else
        let u = 2 powi ulp_exponent x;
            r = of_int (round_half_even (x / u)) * u
        in if 2 ^ 1024 \<le> \<bar>r\<bar> then (if 0 < x then PosInf else NegInf) else Num r)"

fun js_neg :: "number \<Rightarrow> number" where
  "js_neg (Num a) = Num (- a)"
| "js_neg PosInf = NegInf"
| "js_neg NegInf = PosInf"
| "js_neg NaN = NaN"

text \<open>\<^verbatim>\<open>a + b\<close>, \<^verbatim>\<open>a - b\<close>, \<^verbatim>\<open>a * b\<close>, \<^verbatim>\<open>a / b\<close> and \<^verbatim>\<open>Math.sqrt(a)\<close>.\<close>

fun js_add :: "number \<Rightarrow> number \<Rightarrow> number" where
  "js_add (Num a) (Num b) = round64 (a + b)"
| "js_add NaN _ = NaN"
| "js_add _ NaN = NaN"
| "js_add PosInf NegInf = NaN"
| "js_add NegInf PosInf = NaN"
| "js_add PosInf _ = PosInf"
| "js_add NegInf _ = NegInf"
| "js_add (Num a) b = b"

definition js_sub :: "number \<Rightarrow> number \<Rightarrow> number" where
  "js_sub a b = js_add a (js_neg b)"

fun js_mul :: "number \<Rightarrow> number \<Rightarrow> number" where
  "js_mul (Num a) (Num b) = round64 (a * b)"
| "js_mul NaN _ = NaN"
| "js_mul _ NaN = NaN"
| "js_mul (Num a) b = (if a = 0 then NaN else if 0 < a then b else js_neg b)"
| "js_mul a (Num b) = (if b = 0 then NaN else if 0 < b then a else js_neg a)"
| "js_mul PosInf b = b"
| "js_mul NegInf b = js_neg b"

fun js_div :: "number \<Rightarrow> number \<Rightarrow> number" where
  "js_div (Num a) (Num b) =
     (if b = 0 then (if a = 0 then NaN else if 0 < a then PosInf else NegInf)
      else round64 (a / b))"
| "js_div NaN _ = NaN"
| "js_div _ NaN = NaN"
| "js_div (Num a) _ = Num 0"
| "js_div a (Num b) = (if 0 \<le> b then a else js_neg a)"
| "js_div _ _ = NaN"

fun js_sqrt :: "number \<Rightarrow> number" where
  "js_sqrt (Num a) = (if a < 0 then NaN else round64 (sqrt a))"
| "js_sqrt PosInf = PosInf"
| "js_sqrt _ = NaN"

text \<open>\<^verbatim>\<open>a < b\<close> and \<^verbatim>\<open>a <= b\<close>: false as soon as one side is NaN.\<close>

fun js_lt :: "number \<Rightarrow> number \<Rightarrow> bool" where
  "js_lt (Num a) (Num b) = (a < b)"
| "js_lt NaN _ = False"
| "js_lt _ NaN = False"
| "js_lt _ NegInf = False"
| "js_lt PosInf _ = False"
| "js_lt _ _ = True"

fun js_le :: "number \<Rightarrow> number \<Rightarrow> bool" where
  "js_le (Num a) (Num b) = (a \<le> b)"
| "js_le NaN _ = False"
| "js_le _ NaN = False"
| "js_le NegInf _ = True"
| "js_le _ PosInf = True"
| "js_le _ _ = False"

text \<open>\<^verbatim>\<open>a || b\<close> on numbers: zero and NaN are falsy.\<close>

fun js_or :: "number \<Rightarrow> number \<Rightarrow> number" where
  "js_or (Num a) b = (if a = 0 then b else Num a)"
| "js_or NaN b = b"
| "js_or a b = a"

text \<open>\<^verbatim>\<open>Math.hypot(a, b)\<close>: infinite if an argument is, else NaN if an argument is, else
  the square root of the sum of the squares. ECMAScript leaves its last bit to the
  implementation; it is taken as correctly rounded.\<close>

fun hypot :: "number \<Rightarrow> number \<Rightarrow> number" where
  "hypot (Num a) (Num b) = round64 (sqrt (a * a + b * b))"
| "hypot PosInf _ = PosInf"
| "hypot NegInf _ = PosInf"
| "hypot _ PosInf = PosInf"
| "hypot _ NegInf = PosInf"
| "hypot _ _ = NaN"

subsection \<open>Constants (lines 10--15)\<close>

definition WALK_SPEED :: number where "WALK_SPEED = Num 4"
definition ATTACK_RANGE :: number where "ATTACK_RANGE = Num 1"
definition ATTACK_COOLDOWN :: number where "ATTACK_COOLDOWN = Num 1000"
definition MAX_HP :: number where "MAX_HP = Num 10"

subsection \<open>Vectors: the part of three.js \<^verbatim>\<open>Vector3\<close> that is called\<close>

datatype vec3 = V3 (vx: number) (vy: number) (vz: number)

text \<open>\<^verbatim>\<open>Vector3.length()\<close>: \<^verbatim>\<open>Math.sqrt(x*x + y*y + z*z)\<close>.\<close>

definition length3 :: "vec3 \<Rightarrow> number" where
  "length3 v =
     js_sqrt (js_add (js_add (js_mul (vx v) (vx v)) (js_mul (vy v) (vy v)))
                     (js_mul (vz v) (vz v)))"

text \<open>\<^verbatim>\<open>Vector3.multiplyScalar(s)\<close> and \<^verbatim>\<open>Vector3.divideScalar(s)\<close>, the latter being
  \<^verbatim>\<open>multiplyScalar(1 / s)\<close>.\<close>

definition multiplyScalar :: "vec3 \<Rightarrow> number \<Rightarrow> vec3" where
  "multiplyScalar v s = V3 (js_mul (vx v) s) (js_mul (vy v) s) (js_mul (vz v) s)"

definition divideScalar :: "vec3 \<Rightarrow> number \<Rightarrow> vec3" where
  "divideScalar v s = multiplyScalar v (js_div (Num 1) s)"

text \<open>\<^verbatim>\<open>Vector3.normalize()\<close> is \<^verbatim>\<open>divideScalar(this.length() || 1)\<close>: a vector whose
  length comes out zero is divided by one, and so stays as it is.\<close>

definition normalize3 :: "vec3 \<Rightarrow> vec3" where
  "normalize3 v = divideScalar v (js_or (length3 v) (Num 1))"

subsection \<open>State, surroundings and collaborator calls\<close>

text \<open>The calls made on collaborators: the quest context, the owner, the rigid body, the
  timer queue, the model group and the animation actions.\<close>

datatype effect =
    AddKill
  | OnDead
  | SetTranslation vec3
  | SetEnabled bool
  | SetTimeout number
  | SetNextKinematicTranslation vec3
  | LookAt number number number
  | ActionStop string
  | ActionReset string
  | ActionFadeIn string number
  | ActionPlay string

text \<open>The hooks of lines 24--29, the pending timers and the trace of collaborator calls.
  A pending timer is the clock value at which its delay has elapsed, with the
  \<^verbatim>\<open>onDead\<close> its callback closed over.\<close>

record ghost =
  curr :: string
  hp :: number
  dead :: bool
  vanishing :: bool
  vanishPosRef :: vec3
  lastAttack :: number
  timers :: "(real \<times> bool) list"
  trace :: "effect list"

text \<open>What the closures read from outside: \<^verbatim>\<open>playerRef.current?.translation()\<close>,
  \<^verbatim>\<open>rigid.current?.translation()\<close> (\<open>None\<close> when the ref is empty), whether
  \<^verbatim>\<open>model.current\<close> is set, the clip names for which \<^verbatim>\<open>actions[name]\<close> exists,
  \<^verbatim>\<open>performance.now()\<close>, the clock of the timer queue (both in milliseconds) and whether
  the \<^verbatim>\<open>onDead\<close> prop was given to the render whose closures run.\<close>

record env =
  playerRef :: "vec3 option"
  rigid :: "vec3 option"
  model :: bool
  actions :: "string list"
  now :: number
  clock :: real
  onDead :: bool

text \<open>The \<^verbatim>\<open>userData\<close> of the other body of an intersection: its \<^verbatim>\<open>type\<close> and
  \<^verbatim>\<open>damage\<close>, each possibly undefined.\<close>

record userData =
  ud_type :: "string option"
  ud_damage :: "number option"

definition emit :: "effect list \<Rightarrow> ghost \<Rightarrow> ghost" where
  "emit es s = s\<lparr>trace := trace s @ es\<rparr>"

text \<open>Lines 24--29: the state of a freshly mounted ghost.\<close>

definition init :: "vec3 \<Rightarrow> ghost" where
  "init spawnPos =
     \<lparr>curr = ''Idle'', hp = MAX_HP, dead = False, vanishing = False,
      vanishPosRef = spawnPos, lastAttack = Num 0, timers = [], trace = []\<rparr>"

subsection \<open>The closures\<close>

text \<open>Lines 32--37. The literal \<^verbatim>\<open>0.2\<close> is the double nearest to it.\<close>

definition play :: "env \<Rightarrow> string \<Rightarrow> ghost \<Rightarrow> ghost" where
  "play e name s =
     (if curr s = name \<or> name \<notin> set (actions e) then s
      else (emit (map ActionStop (actions e)
                  @ [ActionReset name, ActionFadeIn name (round64 0.2), ActionPlay name]) s)
             \<lparr>curr := name\<rparr>)"

text \<open>Lines 40--47: the effect run when \<^verbatim>\<open>spawnPos\<close> changes.\<close>

definition spawnEffect :: "env \<Rightarrow> vec3 \<Rightarrow> ghost \<Rightarrow> ghost" where
  "spawnEffect e spawnPos s =
     (case rigid e of None \<Rightarrow> s | Some _ \<Rightarrow> emit [SetTranslation spawnPos] s)"

text \<open>Lines 49--64. The guard of line 50 reads the \<^verbatim>\<open>vanishing\<close> of line 27, a
  \<^verbatim>\<open>const\<close> of the render that created the closure: the argument \<open>captured\<close>.
  \<^verbatim>\<open>setTimeout(f, 2200)\<close> queues \<open>f\<close>, which closes over \<^verbatim>\<open>onDead\<close>, for the clock value
  \<open>clock + 2200\<close>.\<close>

definition startVanish :: "bool \<Rightarrow> env \<Rightarrow> ghost \<Rightarrow> ghost" where
  "startVanish captured e s =
     (if captured then s
      else
        let s1 = s\<lparr>vanishing := True\<rparr>;
            s2 = (case rigid e of
                    None \<Rightarrow> s1
                  | Some t \<Rightarrow>
                      emit [SetEnabled False]
                        (s1\<lparr>vanishPosRef := V3 (vx t) (vy t) (vz t)\<rparr>))
        in emit [SetTimeout (Num 2200)]
             (s2\<lparr>timers := timers s2 @ [(clock e + 2200, onDead e)]\<rparr>))"

text \<open>Lines 60--63: the callback given to \<^verbatim>\<open>setTimeout\<close>, with the \<^verbatim>\<open>onDead\<close> it closed
  over.\<close>

definition timeoutCallback :: "bool \<Rightarrow> ghost \<Rightarrow> ghost" where
  "timeoutCallback onDead_captured s =
     (let s1 = s\<lparr>dead := True\<rparr> in if onDead_captured then emit [OnDead] s1 else s1)"

text \<open>Lines 66--75. The updater runs on the latest \<^verbatim>\<open>hp\<close>; the \<^verbatim>\<open>startVanish\<close> it calls
  is the one of the render that created \<^verbatim>\<open>handleHit\<close>.\<close>

definition handleHit :: "bool \<Rightarrow> env \<Rightarrow> number \<Rightarrow> ghost \<Rightarrow> ghost" where
  "handleHit captured e damage s =
     (let next = js_sub (hp s) damage;
          s1 = (if js_le next (Num 0) then startVanish captured e (emit [AddKill] s) else s)
      in s1\<lparr>hp := next\<rparr>)"

text \<open>Lines 137--142: only a body tagged \<^verbatim>\<open>magic\<close> hits, with 10 for a missing damage.\<close>

definition onIntersectionEnter :: "bool \<Rightarrow> env \<Rightarrow> userData \<Rightarrow> ghost \<Rightarrow> ghost" where
  "onIntersectionEnter captured e other s =
     (if ud_type other = Some ''magic''
      then handleHit captured e (case ud_damage other of None \<Rightarrow> Num 10 | Some d \<Rightarrow> d) s
      else s)"

text \<open>Line 91: \<^verbatim>\<open>model.current?.lookAt(p.x, g.y, p.z)\<close>.\<close>

definition modelLookAt :: "env \<Rightarrow> vec3 \<Rightarrow> vec3 \<Rightarrow> ghost \<Rightarrow> ghost" where
  "modelLookAt e p g s = (if model e then emit [LookAt (vx p) (vy g) (vz p)] s else s)"

text \<open>Lines 80--113. The literal \<^verbatim>\<open>0.3\<close> is the double nearest to it.\<close>

definition useFrame :: "env \<Rightarrow> number \<Rightarrow> ghost \<Rightarrow> ghost" where
  "useFrame e dt s =
     (if dead s then s
      else case playerRef e of
        None \<Rightarrow> s
      | Some p \<Rightarrow>
         (case rigid e of
            None \<Rightarrow> s
          | Some g \<Rightarrow>
             let dist = hypot (js_sub (vx p) (vx g)) (js_sub (vz p) (vz g));
                 s1 = modelLookAt e p g s
             in if js_lt ATTACK_RANGE dist then
                  let dir = normalize3 (V3 (js_sub (vx p) (vx g)) (Num 0)
                                           (js_sub (vz p) (vz g)));
                      next = V3 (js_add (vx g) (js_mul (js_mul (vx dir) WALK_SPEED) dt))
                                (vy g)
                                (js_add (vz g) (js_mul (js_mul (vz dir) WALK_SPEED) dt))
                  in play e ''Armature|Action_Walk''
                       (emit [SetNextKinematicTranslation next] s1)
                else
                  let s2 = play e ''Armature|Action_Atack'' s1
                  in if js_lt ATTACK_COOLDOWN (js_sub (now e) (lastAttack s2)) then
                       let s3 = s2\<lparr>lastAttack := now e\<rparr>;
                           backDir = normalize3 (V3 (js_sub (vx g) (vx p)) (Num 0)
                                                    (js_sub (vz g) (vz p)));
                           retreat = V3 (js_add (vx g) (js_mul (vx backDir) (round64 0.3)))
                                        (vy g)
                                        (js_add (vz g) (js_mul (vz backDir) (round64 0.3)))
                       in emit [SetNextKinematicTranslation retreat] s3
                     else s2))"

text \<open>Lines 116--120: the effect run when \<^verbatim>\<open>raining\<close> changes. It runs right after the
  render that saw the change, so the \<^verbatim>\<open>vanishing\<close> its closure captured is the committed
  one.\<close>

definition rainingEffect :: "env \<Rightarrow> bool \<Rightarrow> ghost \<Rightarrow> ghost" where
  "rainingEffect e raining s = (if \<not> raining then startVanish (vanishing s) e s else s)"

text \<open>Lines 123, 144 and 152: the health bar is drawn, with \<^verbatim>\<open>scale-x = hp / MAX_HP\<close>,
  only while the ghost is neither dead nor vanishing.\<close>

definition healthFraction :: "ghost \<Rightarrow> number" where
  "healthFraction s = js_div (hp s) MAX_HP"

definition healthBar :: "ghost \<Rightarrow> number option" where
  "healthBar s = (if dead s then None
                  else if \<not> vanishing s then Some (healthFraction s) else None)"

subsection \<open>The host: events delivered one at a time\<close>

text \<open>The timer queue runs the callback of the oldest pending timer once the clock has
  reached its deadline, and not before.\<close>

definition runTimeout :: "env \<Rightarrow> ghost \<Rightarrow> ghost" where
  "runTimeout e s =
     (case timers s of
        [] \<Rightarrow> s
      | (d, f) # ds \<Rightarrow> if d \<le> clock e then timeoutCallback f (s\<lparr>timers := ds\<rparr>) else s)"

text \<open>The intersections one physics step reports are handed, one after the other, to the
  handler of the render committed before the step: all of them read the same captured
  \<^verbatim>\<open>vanishing\<close>.\<close>

fun drain :: "bool \<Rightarrow> env \<Rightarrow> userData list \<Rightarrow> ghost \<Rightarrow> ghost" where
  "drain captured e [] s = s"
| "drain captured e (other # rest) s =
     drain captured e rest (onIntersectionEnter captured e other s)"

datatype event =
    SpawnPosChanged vec3
  | Intersections "userData list"
  | Frame number
  | RainingChanged bool
  | TimerTick

fun step :: "env \<Rightarrow> event \<Rightarrow> ghost \<Rightarrow> ghost" where
  "step e (SpawnPosChanged p) s = spawnEffect e p s"
| "step e (Intersections others) s = drain (vanishing s) e others s"
| "step e (Frame dt) s = useFrame e dt s"
| "step e (RainingChanged r) s = rainingEffect e r s"
| "step e TimerTick s = runTimeout e s"

fun run :: "ghost \<Rightarrow> (env \<times> event) list \<Rightarrow> ghost" where
  "run s [] = s"
| "run s ((e, ev) # rest) = run (step e ev s) rest"

text \<open>The lifecycle state of the specification, read off the two flags.\<close>

datatype lifecycle = Alive | Vanishing | Removed

definition lifecycleState :: "ghost \<Rightarrow> lifecycle" where
  "lifecycleState s = (if dead s then Removed else if vanishing s then Vanishing else Alive)"

subsection \<open>Observations on states and traces\<close>

text \<open>The calls one frame adds to the trace.\<close>

definition frameEffects :: "env \<Rightarrow> number \<Rightarrow> ghost \<Rightarrow> effect list" where
  "frameEffects e dt s = drop (length (trace s)) (trace (useFrame e dt s))"

fun isSetTimeout :: "effect \<Rightarrow> bool" where
  "isSetTimeout (SetTimeout d) = True"
| "isSetTimeout _ = False"

text \<open>A sequence of \<^verbatim>\<open>handleHit\<close> calls made through the closure of one render, in order.\<close>

fun handleHits :: "bool \<Rightarrow> env \<Rightarrow> number list \<Rightarrow> ghost \<Rightarrow> ghost" where
  "handleHits captured e [] s = s"
| "handleHits captured e (d # ds) s = handleHits captured e ds (handleHit captured e d s)"

text \<open>An intersection that passes no negative damage to \<^verbatim>\<open>handleHit\<close> (line 139), and an
  event all of whose intersections are such.\<close>

definition harmful :: "userData \<Rightarrow> bool" where
  "harmful other =
     (if ud_type other = Some ''magic''
      then js_le (Num 0) (case ud_damage other of None \<Rightarrow> Num 10 | Some d \<Rightarrow> d)
      else True)"

fun damaging :: "event \<Rightarrow> bool" where
  "damaging (Intersections others) = list_all harmful others"
| "damaging _ = True"


text \<open>The moves of the lifecycle that go forward: staying, Alive to Vanishing, Vanishing
  to Removed.\<close>

fun forward :: "lifecycle \<Rightarrow> lifecycle \<Rightarrow> bool" where
  "forward Alive Alive = True"
| "forward Alive Vanishing = True"
| "forward Vanishing Vanishing = True"
| "forward Vanishing Removed = True"
| "forward Removed Removed = True"
| "forward _ _ = False"

text \<open>What holds of every state a ghost reaches: a dead ghost has vanished, a ghost that
  has not begun to vanish has no timer and has scheduled none, and hit points at or
  below zero mean that vanishing has begun.\<close>

definition lifecycle_inv :: "ghost \<Rightarrow> bool" where
  "lifecycle_inv s \<longleftrightarrow>
     (dead s \<longrightarrow> vanishing s) \<and>
     (\<not> vanishing s \<longrightarrow> timers s = [] \<and> filter isSetTimeout (trace s) = []) \<and>
     (js_le (hp s) (Num 0) \<longrightarrow> vanishing s)"

subsection \<open>Concrete surroundings for the examples\<close>

definition clips :: "string list" where
  "clips = [''Idle'', ''Armature|Action_Walk'', ''Armature|Action_Atack'']"

definition surroundings :: "vec3 option \<Rightarrow> vec3 option \<Rightarrow> real \<Rightarrow> env" where
  "surroundings p g t =
     \<lparr>playerRef = p, rigid = g, model = True, actions = clips, now = Num t, clock = t,
      onDead = True\<rparr>"

definition magic :: "number option \<Rightarrow> userData" where
  "magic d = \<lparr>ud_type = Some ''magic'', ud_damage = d\<rparr>"

definition point :: "real \<Rightarrow> real \<Rightarrow> real \<Rightarrow> vec3" where
  "point a b c = V3 (Num a) (Num b) (Num c)"

section \<open>Properties\<close>

subsection \<open>Rounding\<close>

lemma powi_powr: "(2::real) powi k = 2 powr (of_int k)"
  by (simp add: powr_real_of_int' power_int_def)

lemma floor_log2_binade:
  assumes "2 powi k \<le> \<bar>x\<bar>" "\<bar>x\<bar> < 2 powi (k + 1)"
  shows "\<lfloor>log 2 \<bar>x\<bar>\<rfloor> = k"
proof -
  have "0 < \<bar>x\<bar>" using assms(1) by (smt (verit) zero_less_power_int)
  then show ?thesis
    using assms by (simp add: floor_log_eq_powr_iff powi_powr)
qed

lemma round_half_even_int [simp]: "round_half_even (of_int m) = m"
  by (simp add: round_half_even_def)

lemma round_half_even_le:
  assumes "q \<le> of_int n"
  shows "round_half_even q \<le> n"
proof (cases "q = of_int n")
  case True
  then show ?thesis by simp
next
  case False
  then have "q < of_int n" using assms by simp
  then have "\<lfloor>q\<rfloor> < n" by (simp add: floor_less_iff)
  then show ?thesis by (simp add: round_half_even_def Let_def)
qed

lemma round_half_even_ge:
  assumes "of_int n \<le> q"
  shows "n \<le> round_half_even q"
proof -
  have "n \<le> \<lfloor>q\<rfloor>" using assms by (simp add: le_floor_iff)
  then show ?thesis by (simp add: round_half_even_def Let_def)
qed

text \<open>Rounding a real whose binade is known.\<close>

lemma round64_binade:
  assumes "2 powi k \<le> \<bar>x\<bar>" "\<bar>x\<bar> < 2 powi (k + 1)" "- 1022 \<le> k"
  shows "round64 x =
     (if 2 ^ 1024 \<le> \<bar>real_of_int (round_half_even (x / 2 powi (k - 52))) * 2 powi (k - 52)\<bar>
      then (if 0 < x then PosInf else NegInf)
      else Num (real_of_int (round_half_even (x / 2 powi (k - 52))) * 2 powi (k - 52)))"
proof -
  have "x \<noteq> 0" using assms(1) by (smt (verit) zero_less_power_int)
  moreover have "ulp_exponent x = k - 52"
    using floor_log2_binade [OF assms(1,2)] assms(3) by (simp add: ulp_exponent_def)
  ultimately show ?thesis by (simp add: round64_def Let_def)
qed

lemma ulp_exponent_bounds: "- 1074 \<le> ulp_exponent x"
  by (simp add: ulp_exponent_def)

lemma ulp_exponent_le:
  assumes "x \<noteq> 0" "\<bar>x\<bar> < 2 powi (k + 53)" "- 1074 \<le> k"
  shows "ulp_exponent x \<le> k"
proof -
  have "log 2 \<bar>x\<bar> < of_int (k + 53)"
    using assms(1,2) by (simp add: powi_powr log_less_iff)
  then have "\<lfloor>log 2 \<bar>x\<bar>\<rfloor> < k + 53" by (simp add: floor_less_iff)
  then show ?thesis using assms(3) by (simp add: ulp_exponent_def)
qed

text \<open>A value on the grid of its own last place rounds to itself or overflows.\<close>

lemma on_grid:
  assumes "e \<le> k"
  shows "real_of_int m * 2 powi k / 2 powi e = real_of_int (m * 2 ^ nat (k - e))"
proof -
  have "(2::real) powi k = 2 powi (k - e) * 2 powi e"
    by (simp flip: power_int_add)
  moreover have "(2::real) powi (k - e) = 2 ^ nat (k - e)"
    using assms by (simp add: power_int_def)
  ultimately show ?thesis by simp
qed

lemma round64_exact:
  assumes "x = real_of_int m * 2 powi k" "\<bar>m\<bar> < 2 ^ 53" "- 1074 \<le> k" "k \<le> 971"
  shows "round64 x = Num x"
proof (cases "x = 0")
  case True
  then show ?thesis by (simp add: round64_def)
next
  case False
  let ?e = "ulp_exponent x"
  have "\<bar>x\<bar> = real_of_int \<bar>m\<bar> * 2 powi k"
    by (simp add: assms(1) abs_mult)
  also have "\<dots> < 2 ^ 53 * 2 powi k"
  proof -
    have "real_of_int \<bar>m\<bar> < real_of_int (2 ^ 53)"
      using assms(2) by (simp only: of_int_less_iff)
    then have "real_of_int \<bar>m\<bar> < 2 ^ 53" by simp
    then show ?thesis by (simp add: mult_strict_right_mono)
  qed
  finally have lt: "\<bar>x\<bar> < 2 powi (k + 53)"
    by (simp add: power_int_add mult.commute)
  have e: "?e \<le> k" by (rule ulp_exponent_le [OF False lt assms(3)])
  have q: "x / 2 powi ?e = real_of_int (m * 2 ^ nat (k - ?e))"
    using on_grid [OF e, of m] assms(1) by simp
  have "real_of_int (round_half_even (x / 2 powi ?e)) * 2 powi ?e = x / 2 powi ?e * 2 powi ?e"
    unfolding q round_half_even_int ..
  then have r: "real_of_int (round_half_even (x / 2 powi ?e)) * 2 powi ?e = x"
    by simp
  have "2 powi (k + 53) \<le> (2::real) powi 1024"
    using assms(4) by (intro power_int_increasing) simp_all
  then have "\<bar>x\<bar> < 2 ^ 1024" using lt by (simp add: power_int_def)
  then show ?thesis using False r by (simp add: round64_def Let_def)
qed

lemma round64_int: "\<bar>m\<bar> < 2 ^ 53 \<Longrightarrow> round64 (real_of_int m) = Num (real_of_int m)"
  using round64_exact [of "real_of_int m" m 0] by simp

lemma round64_numeral [simp]:
  "(numeral n :: int) < 2 ^ 53 \<Longrightarrow> round64 (numeral n) = Num (numeral n)"
  using round64_int [of "numeral n"] by simp

lemma round64_neg_numeral [simp]:
  "(numeral n :: int) < 2 ^ 53 \<Longrightarrow> round64 (- numeral n) = Num (- numeral n)"
  using round64_int [of "- numeral n"] by simp

lemma round64_0 [simp]: "round64 0 = Num 0"
  by (simp add: round64_def)

lemma round64_1 [simp]: "round64 1 = Num 1"
  using round64_int [of 1] by simp

lemma round64_dyadic:
  "\<bar>m\<bar> < 2 ^ 53 \<Longrightarrow> j \<le> 1074 \<Longrightarrow> round64 (real_of_int m / 2 ^ j) = Num (real_of_int m / 2 ^ j)"
  using round64_exact [of "real_of_int m / 2 ^ j" m "- int j"]
  by (simp add: power_int_minus divide_inverse)

text \<open>Rounding does not step over a value on the grid.\<close>

lemma round64_le_grid:
  assumes "x \<le> b" "b = real_of_int n * 2 powi ulp_exponent x" "b < 2 ^ 1024"
  shows "js_le (round64 x) (Num b)"
proof (cases "x = 0")
  case True
  then show ?thesis using assms(1) by simp
next
  case False
  let ?u = "(2::real) powi ulp_exponent x"
  have u: "0 < ?u" by simp
  have "x / ?u \<le> real_of_int n"
    using assms(1,2) u by (simp add: pos_divide_le_eq)
  then have "round_half_even (x / ?u) \<le> n" by (rule round_half_even_le)
  then have le: "real_of_int (round_half_even (x / ?u)) * ?u \<le> b"
    unfolding assms(2) using u by (simp add: mult_right_mono)
  have pos: "0 \<le> real_of_int (round_half_even (x / ?u)) * ?u" if "0 < x"
  proof -
    have "real_of_int 0 \<le> x / ?u" using that u by simp
    then have "0 \<le> round_half_even (x / ?u)" by (rule round_half_even_ge)
    then show ?thesis using u by simp
  qed
  show ?thesis
    using False le pos assms(3) by (auto simp: round64_def Let_def)
qed

lemma round64_ge_0: "0 \<le> x \<Longrightarrow> js_le (Num 0) (round64 x)"
proof -
  assume a: "0 \<le> x"
  let ?u = "(2::real) powi ulp_exponent x"
  have "real_of_int 0 \<le> x / ?u" using a by simp
  then have "0 \<le> round_half_even (x / ?u)" by (rule round_half_even_ge)
  then have "0 \<le> real_of_int (round_half_even (x / ?u)) * ?u" by simp
  then show ?thesis using a by (auto simp: round64_def Let_def)
qed

lemma round64_le_0: "x \<le> 0 \<Longrightarrow> js_le (round64 x) (Num 0)"
  using round64_le_grid [of x 0 0] by simp

lemma grid_value:
  assumes "- 1074 \<le> e" "e \<le> 0"
  shows "real_of_int (c * 2 ^ nat (- e)) * 2 powi e = real_of_int c"
proof -
  have "(2::real) ^ nat (- e) * 2 powi e = 1"
    using assms by (simp add: power_int_def field_simps)
  then show ?thesis by (simp add: mult.assoc)
qed

lemma round64_le_10: "x \<le> 10 \<Longrightarrow> js_le (round64 x) (Num 10)"
proof (cases "x \<le> 0")
  case True
  then have "js_le (round64 x) (Num 0)" by (rule round64_le_0)
  then show ?thesis by (cases "round64 x") auto
next
  case False
  assume a: "x \<le> 10"
  have "\<bar>x\<bar> < 2 powi (- 49 + 53)" using a False by simp
  then have e: "ulp_exponent x \<le> - 49"
    using False by (intro ulp_exponent_le) auto
  have "10 = real_of_int (10 * 2 ^ nat (- ulp_exponent x)) * 2 powi ulp_exponent x"
    using grid_value [OF ulp_exponent_bounds, of x 10] e by simp
  then show ?thesis
    using a by (intro round64_le_grid [where n = "10 * 2 ^ nat (- ulp_exponent x)"]) simp_all
qed

lemma round64_le_1: "x \<le> 1 \<Longrightarrow> js_le (round64 x) (Num 1)"
proof (cases "x \<le> 0")
  case True
  then have "js_le (round64 x) (Num 0)" by (rule round64_le_0)
  then show ?thesis by (cases "round64 x") auto
next
  case False
  assume a: "x \<le> 1"
  have "\<bar>x\<bar> < 2 powi (- 52 + 53)" using a False by simp
  then have e: "ulp_exponent x \<le> - 52"
    using False by (intro ulp_exponent_le) auto
  have "1 = real_of_int (1 * 2 ^ nat (- ulp_exponent x)) * 2 powi ulp_exponent x"
    using grid_value [OF ulp_exponent_bounds, of x 1] e by simp
  then show ?thesis
    using a by (intro round64_le_grid [where n = "1 * 2 ^ nat (- ulp_exponent x)"]) simp_all
qed

lemmas closure_defs = play_def spawnEffect_def startVanish_def timeoutCallback_def handleHit_def
  onIntersectionEnter_def useFrame_def rainingEffect_def runTimeout_def emit_def init_def
  modelLookAt_def Let_def

subsection \<open>How each closure moves the fields\<close>

lemma emit_fields:
  "dead (emit es s) = dead s" "vanishing (emit es s) = vanishing s"
  "timers (emit es s) = timers s" "hp (emit es s) = hp s"
  "vanishPosRef (emit es s) = vanishPosRef s" "lastAttack (emit es s) = lastAttack s"
  "curr (emit es s) = curr s" "trace (emit es s) = trace s @ es"
  by (simp_all add: emit_def)

lemma play_fields:
  "dead (play e n s) = dead s" "vanishing (play e n s) = vanishing s"
  "timers (play e n s) = timers s" "hp (play e n s) = hp s"
  "vanishPosRef (play e n s) = vanishPosRef s" "lastAttack (play e n s) = lastAttack s"
  "filter isSetTimeout (trace (play e n s)) = filter isSetTimeout (trace s)"
  by (simp_all add: play_def emit_def filter_map comp_def)

lemma modelLookAt_fields:
  "dead (modelLookAt e p g s) = dead s" "vanishing (modelLookAt e p g s) = vanishing s"
  "timers (modelLookAt e p g s) = timers s" "hp (modelLookAt e p g s) = hp s"
  "vanishPosRef (modelLookAt e p g s) = vanishPosRef s"
  "lastAttack (modelLookAt e p g s) = lastAttack s"
  "filter isSetTimeout (trace (modelLookAt e p g s)) = filter isSetTimeout (trace s)"
  by (simp_all add: modelLookAt_def emit_def)

lemma useFrame_fields:
  "dead (useFrame e dt s) = dead s" "vanishing (useFrame e dt s) = vanishing s"
  "timers (useFrame e dt s) = timers s" "hp (useFrame e dt s) = hp s"
  "vanishPosRef (useFrame e dt s) = vanishPosRef s"
  "filter isSetTimeout (trace (useFrame e dt s)) = filter isSetTimeout (trace s)"
  by (simp_all add: useFrame_def Let_def play_fields emit_fields modelLookAt_fields
        split: option.split)

lemma spawnEffect_fields:
  "dead (spawnEffect e p s) = dead s" "vanishing (spawnEffect e p s) = vanishing s"
  "timers (spawnEffect e p s) = timers s" "hp (spawnEffect e p s) = hp s"
  "vanishPosRef (spawnEffect e p s) = vanishPosRef s"
  "filter isSetTimeout (trace (spawnEffect e p s)) = filter isSetTimeout (trace s)"
  by (simp_all add: spawnEffect_def emit_fields split: option.split)

lemma startVanish_noop: "startVanish True e s = s"
  by (simp add: startVanish_def)

lemma startVanish_fields:
  "dead (startVanish c e s) = dead s"
  "vanishing (startVanish c e s) = (vanishing s \<or> \<not> c)"
  "hp (startVanish c e s) = hp s"
  by (simp_all add: startVanish_def Let_def emit_fields split: option.split)

lemma handleHit_fields:
  "dead (handleHit c e d s) = dead s" "hp (handleHit c e d s) = js_sub (hp s) d"
  "vanishing (handleHit c e d s) = (vanishing s \<or> (\<not> c \<and> js_le (js_sub (hp s) d) (Num 0)))"
  by (auto simp: handleHit_def Let_def startVanish_fields emit_fields)

lemma handleHit_vanishPosRef:
  "c \<Longrightarrow> vanishPosRef (handleHit c e d s) = vanishPosRef s"
  by (simp add: handleHit_def Let_def startVanish_noop emit_fields)

lemma runTimeout_fields:
  "hp (runTimeout e s) = hp s" "vanishing (runTimeout e s) = vanishing s"
  "vanishPosRef (runTimeout e s) = vanishPosRef s"
  "filter isSetTimeout (trace (runTimeout e s)) = filter isSetTimeout (trace s)"
  by (simp_all add: runTimeout_def timeoutCallback_def Let_def emit_fields
        split: list.split prod.split)

subsection \<open>The invariant\<close>

lemma inv_init: "lifecycle_inv (init sp)"
  by (simp add: lifecycle_inv_def init_def MAX_HP_def)

lemma inv_startVanish:
  "lifecycle_inv s \<Longrightarrow> c \<longrightarrow> vanishing s \<Longrightarrow> lifecycle_inv (startVanish c e s)"
  by (cases c)
     (simp_all add: startVanish_noop, simp add: lifecycle_inv_def startVanish_fields)

lemma inv_handleHit:
  assumes "lifecycle_inv s" "c \<longrightarrow> vanishing s"
  shows "lifecycle_inv (handleHit c e d s)"
proof (cases "js_le (js_sub (hp s) d) (Num 0)")
  case True
  have "lifecycle_inv (emit [AddKill] s)"
    using assms by (simp add: lifecycle_inv_def emit_fields)
  then have "lifecycle_inv (startVanish c e (emit [AddKill] s))"
    using assms(2) by (intro inv_startVanish) (simp_all add: emit_fields)
  then show ?thesis using True assms(2)
    by (auto simp: handleHit_def Let_def lifecycle_inv_def startVanish_fields emit_fields)
next
  case False
  then show ?thesis using assms
    by (simp add: handleHit_def Let_def lifecycle_inv_def)
qed

lemma inv_drain:
  "lifecycle_inv s \<Longrightarrow> c \<longrightarrow> vanishing s \<Longrightarrow> lifecycle_inv (drain c e others s)"
proof (induction others arbitrary: s)
  case Nil
  then show ?case by simp
next
  case (Cons other rest)
  have "lifecycle_inv (onIntersectionEnter c e other s)"
    using Cons.prems by (simp add: onIntersectionEnter_def inv_handleHit)
  moreover have "c \<longrightarrow> vanishing (onIntersectionEnter c e other s)"
    using Cons.prems by (simp add: onIntersectionEnter_def handleHit_fields)
  ultimately show ?case by (simp add: Cons.IH)
qed

lemma drain_fields:
  "dead (drain c e others s) = dead s"
  "vanishing s \<Longrightarrow> vanishing (drain c e others s)"
  "c \<Longrightarrow> vanishPosRef (drain c e others s) = vanishPosRef s"
  by (induction others arbitrary: s)
     (simp_all add: onIntersectionEnter_def handleHit_fields handleHit_vanishPosRef)

lemma inv_runTimeout: "lifecycle_inv s \<Longrightarrow> lifecycle_inv (runTimeout e s)"
  by (auto simp: runTimeout_def timeoutCallback_def Let_def lifecycle_inv_def emit_fields
           split: list.split prod.split)

lemma inv_step: "lifecycle_inv s \<Longrightarrow> lifecycle_inv (step e ev s)"
proof (cases ev)
  case (SpawnPosChanged p)
  assume "lifecycle_inv s"
  then show ?thesis using SpawnPosChanged by (simp add: lifecycle_inv_def spawnEffect_fields)
next
  case (Intersections others)
  assume "lifecycle_inv s"
  then show ?thesis using Intersections by (simp add: inv_drain)
next
  case (Frame dt)
  assume "lifecycle_inv s"
  then show ?thesis using Frame by (simp add: lifecycle_inv_def useFrame_fields)
next
  case (RainingChanged r)
  assume "lifecycle_inv s"
  then show ?thesis using RainingChanged by (simp add: rainingEffect_def inv_startVanish)
next
  case TimerTick
  assume "lifecycle_inv s"
  then show ?thesis using TimerTick by (simp add: inv_runTimeout)
qed

lemma inv_run: "lifecycle_inv s \<Longrightarrow> lifecycle_inv (run s evs)"
  by (induction evs arbitrary: s) (auto simp: inv_step)

lemma step_forward:
  assumes "lifecycle_inv s"
  shows "forward (lifecycleState s) (lifecycleState (step e ev s))"
proof (cases ev)
  case (SpawnPosChanged p)
  then show ?thesis using assms by (simp add: lifecycleState_def lifecycle_inv_def spawnEffect_fields)
next
  case (Intersections others)
  have "vanishing s \<longrightarrow> vanishing (drain (vanishing s) e others s)"
    by (simp add: drain_fields)
  then show ?thesis using assms Intersections
    by (simp add: lifecycleState_def lifecycle_inv_def drain_fields)
next
  case (Frame dt)
  then show ?thesis using assms by (simp add: lifecycleState_def lifecycle_inv_def useFrame_fields)
next
  case (RainingChanged r)
  then show ?thesis using assms
    by (simp add: lifecycleState_def lifecycle_inv_def rainingEffect_def startVanish_fields)
next
  case TimerTick
  then show ?thesis using assms
    by (auto simp: lifecycleState_def lifecycle_inv_def runTimeout_def timeoutCallback_def
          Let_def emit_fields split: list.split prod.split)
qed

lemma step_vanishing: "vanishing s \<Longrightarrow> vanishing (step e ev s)"
  by (cases ev)
     (auto simp: spawnEffect_fields drain_fields
        startVanish_fields useFrame_fields rainingEffect_def runTimeout_fields)

lemma step_dead: "dead s \<Longrightarrow> dead (step e ev s)"
  by (cases ev)
     (auto simp: spawnEffect_fields drain_fields
        startVanish_fields emit_fields useFrame_fields rainingEffect_def runTimeout_def
        timeoutCallback_def Let_def split: list.split prod.split)



subsection \<open>The lifecycle\<close>

text \<open>
  Claim C2. Whatever events a ghost has received since it was mounted, and whatever event
  comes next (a physics step with its intersections, the rain signal, the timer, a frame,
  a new spawn position), its lifecycle state stays or moves one step forward along Alive,
  Vanishing, Removed: \<open>vanishing\<close> once true stays true, a dead ghost stays Removed, and
  Removed is entered from Vanishing only (\<open>forward\<close> has no move from Alive to Removed).
\<close>

theorem lifecycle_monotonic:
  "forward (lifecycleState (run (init sp) evs)) (lifecycleState (step e ev (run (init sp) evs)))
   \<and> (vanishing (run (init sp) evs) \<longrightarrow> vanishing (step e ev (run (init sp) evs)))
   \<and> (dead (run (init sp) evs) \<longrightarrow> lifecycleState (step e ev (run (init sp) evs)) = Removed)"
  using step_forward [OF inv_run [OF inv_init], of sp evs e ev]
        step_vanishing [of "run (init sp) evs" e ev]
        step_dead [of "run (init sp) evs" e ev]
  by (simp add: lifecycleState_def)

theorem lifecycle_monotonic_witness:
  "vanishing (run (init (point 0 0 0)) [(surroundings None (Some (point 1 2 3)) 0, RainingChanged False)])
   \<and> \<not> dead (run (init (point 0 0 0)) [(surroundings None (Some (point 1 2 3)) 0, RainingChanged False)])
   \<and> lifecycleState (step (surroundings None None 2200) TimerTick
        (run (init (point 0 0 0)) [(surroundings None (Some (point 1 2 3)) 0, RainingChanged False)])) = Removed
   \<and> vanishing (step (surroundings None None 2200) TimerTick
        (run (init (point 0 0 0)) [(surroundings None (Some (point 1 2 3)) 0, RainingChanged False)]))"
  using lifecycle_monotonic [of "point 0 0 0"
      "[(surroundings None (Some (point 1 2 3)) 0, RainingChanged False)]"
      "surroundings None None 2200" TimerTick]
  by (simp add: closure_defs surroundings_def lifecycleState_def)

subsection \<open>Damage\<close>

lemma ten_minus_ten [simp]: "js_sub (Num 10) (Num 10) = Num 0" "js_sub (Num 0) (Num 10) = Num (- 10)"
  by (simp_all add: js_sub_def)

text \<open>
  Claim C1, evaluated on two hits of 10 on a fresh ghost, a cumulative damage of 20
  against \<open>MAX_HP = 10\<close>. Whether the two hits come in two physics steps, with a commit
  between them, or in one step through the closure of one render, \<^verbatim>\<open>addKill\<close> is called
  twice, once by each hit that leaves the hit points at or below zero. In the first case
  the timer of the death transition is scheduled once, in the second twice.
\<close>

theorem double_kill:
  "js_le MAX_HP (js_add (Num 10) (Num 10))
   \<and> count_list (trace (run (init (point 0 0 0))
        [(surroundings None (Some (point 1 2 3)) 0, Intersections [magic None]),
         (surroundings None (Some (point 1 2 3)) 0, Intersections [magic None])])) AddKill = 2
   \<and> length (filter isSetTimeout (trace (run (init (point 0 0 0))
        [(surroundings None (Some (point 1 2 3)) 0, Intersections [magic None]),
         (surroundings None (Some (point 1 2 3)) 0, Intersections [magic None])]))) = 1
   \<and> count_list (trace (handleHits False (surroundings None (Some (point 1 2 3)) 0)
        [Num 10, Num 10] (init (point 0 0 0)))) AddKill = 2
   \<and> length (filter isSetTimeout (trace (handleHits False (surroundings None (Some (point 1 2 3)) 0)
        [Num 10, Num 10] (init (point 0 0 0))))) = 2"
  by (simp add: closure_defs surroundings_def MAX_HP_def magic_def point_def)

text \<open>
  Claim C4, evaluated on one physics step that reports two intersections with
  \<^verbatim>\<open>magic\<close> bodies of the default damage to a fresh ghost. Both calls of
  \<^verbatim>\<open>startVanish\<close> read the \<^verbatim>\<open>vanishing = false\<close> of the render before the step, both pass
  the guard of line 50, and \<^verbatim>\<open>setTimeout\<close> is called twice: two timers are pending.
\<close>

theorem timer_scheduled_twice:
  "\<not> vanishing (init (point 0 0 0))
   \<and> trace (step (surroundings None (Some (point 1 2 3)) 0)
        (Intersections [magic None, magic None]) (init (point 0 0 0)))
       = [AddKill, SetEnabled False, SetTimeout (Num 2200),
          AddKill, SetEnabled False, SetTimeout (Num 2200)]
   \<and> timers (step (surroundings None (Some (point 1 2 3)) 0)
        (Intersections [magic None, magic None]) (init (point 0 0 0)))
       = [(2200, True), (2200, True)]"
  by (simp add: closure_defs surroundings_def MAX_HP_def magic_def point_def)

subsection \<open>Doubles met in the examples\<close>

lemma sqrt25 [simp]: "sqrt 25 = 5"
  using real_sqrt_abs [of 5] by simp

text \<open>The doubles nearest to 0.2 and 0.3.\<close>

lemma round64_fifth [simp]: "round64 (1 / 5) = Num (3602879701896397 / 18014398509481984)"
  by (subst round64_binade [where k = "- 3"])
     (simp_all add: round_half_even_def power_int_minus)

lemma round64_three_tenths [simp]:
  "round64 (3 / 10) = Num (5404319552844595 / 18014398509481984)"
  by (subst round64_binade [where k = "- 2"])
     (simp_all add: round_half_even_def power_int_minus)

text \<open>Three times the double 0.2 lies halfway between two doubles and goes to the even
  one, above 0.6.\<close>

lemma round64_three_fifths [simp]:
  "round64 (10808639105689191 / 18014398509481984) = Num (1351079888211149 / 2251799813685248)"
  by (subst round64_binade [where k = "- 1"])
     (simp_all add: round_half_even_def power_int_minus)

lemmas round64_steps [simp] =
  round64_dyadic [of 1 1, simplified]
  round64_dyadic [of 3602879701896397 52, simplified]
  round64_dyadic [of 3602879701896397 50, simplified]
  round64_dyadic [of 3602879701896397 51, simplified]
  round64_dyadic [of 1351079888211149 49, simplified]
  round64_dyadic [of 1351079888211149 50, simplified]

lemma normalize3_3_0_4:
  "normalize3 (V3 (Num 3) (Num 0) (Num 4))
     = V3 (Num (1351079888211149 / 2251799813685248)) (Num 0)
          (Num (3602879701896397 / 4503599627370496))"
  by (simp add: normalize3_def length3_def divideScalar_def multiplyScalar_def)

lemma normalize3_zero: "normalize3 (V3 (Num 0) (Num 0) (Num 0)) = V3 (Num 0) (Num 0) (Num 0)"
  by (simp add: normalize3_def length3_def divideScalar_def multiplyScalar_def)

lemma frame_toward_3_0_4:
  "frameEffects ((surroundings (Some (point 3 0 4)) (Some (point 0 h 0)) t)\<lparr>model := m\<rparr>)
      (Num (1 / 2)) s
   = (if dead s then []
      else (if m then [LookAt (Num 3) (Num h) (Num 4)] else [])
        @ [SetNextKinematicTranslation
             (V3 (Num (1351079888211149 / 1125899906842624)) (Num h)
                 (Num (3602879701896397 / 2251799813685248)))]
        @ (if curr s = ''Armature|Action_Walk'' then []
           else [ActionStop ''Idle'', ActionStop ''Armature|Action_Walk'',
                 ActionStop ''Armature|Action_Atack'', ActionReset ''Armature|Action_Walk'',
                 ActionFadeIn ''Armature|Action_Walk'' (round64 (1 / 5)),
                 ActionPlay ''Armature|Action_Walk'']))"
  by (simp add: frameEffects_def useFrame_def surroundings_def point_def clips_def js_sub_def
        ATTACK_RANGE_def WALK_SPEED_def normalize3_3_0_4 play_def emit_def modelLookAt_def Let_def)

subsection \<open>Frames\<close>

lemma play_trace:
  "trace (play e n s) =
     trace s @ (if curr s = n \<or> n \<notin> set (actions e) then []
                else map ActionStop (actions e)
                       @ [ActionReset n, ActionFadeIn n (round64 0.2), ActionPlay n])"
  by (simp add: play_def emit_def)

lemma modelLookAt_trace:
  "trace (modelLookAt e p g s) = trace s @ (if model e then [LookAt (vx p) (vy g) (vz p)] else [])"
  by (simp add: modelLookAt_def emit_def)

lemma useFrame_trace: "trace (useFrame e dt s) = trace s @ frameEffects e dt s"
  by (simp add: frameEffects_def useFrame_def Let_def play_trace modelLookAt_trace emit_def
        split: option.split)




text \<open>
  Claim C7, evaluated on a target straight above the ghost, at planar distance zero,
  with the cooldown elapsed: the Attack clip is requested and \<open>lastAttack\<close> is updated,
  but \<^verbatim>\<open>normalize\<close> leaves the zero vector as it is, and the retreat asked for is the
  position the body already has, a step of 0 and not of 0.3.
\<close>

theorem retreat_at_zero_distance:
  "hypot (js_sub (Num 2) (Num 2)) (js_sub (Num 2) (Num 2)) = Num 0
   \<and> js_lt ATTACK_COOLDOWN (js_sub (now (surroundings (Some (point 2 1 2)) (Some (point 2 0 2)) 1500))
                                     (lastAttack (init (point 2 0 2))))
   \<and> frameEffects (surroundings (Some (point 2 1 2)) (Some (point 2 0 2)) 1500) (Num (1 / 64))
        (init (point 2 0 2))
       = [LookAt (Num 2) (Num 0) (Num 2), ActionStop ''Idle'', ActionStop ''Armature|Action_Walk'',
          ActionStop ''Armature|Action_Atack'', ActionReset ''Armature|Action_Atack'',
          ActionFadeIn ''Armature|Action_Atack'' (round64 0.2),
          ActionPlay ''Armature|Action_Atack'',
          SetNextKinematicTranslation (point 2 0 2)]
   \<and> lastAttack (useFrame (surroundings (Some (point 2 1 2)) (Some (point 2 0 2)) 1500)
        (Num (1 / 64)) (init (point 2 0 2))) = Num 1500"
  by (simp add: frameEffects_def useFrame_def init_def surroundings_def point_def clips_def
        js_sub_def ATTACK_RANGE_def ATTACK_COOLDOWN_def normalize3_zero play_def emit_def
        modelLookAt_def Let_def)

text \<open>
  Claim C10. Every position a frame proposes with \<^verbatim>\<open>setNextKinematicTranslation\<close>, in
  pursuit or in retreat, has the height the body has in that frame.
\<close>

theorem height_preserved:
  "trace (useFrame e dt s) = trace s @ frameEffects e dt s
   \<and> (\<forall>v. SetNextKinematicTranslation v \<in> set (frameEffects e dt s) \<longrightarrow>
            (\<exists>g. rigid e = Some g \<and> vy v = vy g))"
proof -
  have "\<exists>g. rigid e = Some g \<and> vy v = vy g"
    if "SetNextKinematicTranslation v \<in> set (frameEffects e dt s)" for v
    using that
    by (auto simp: frameEffects_def useFrame_def Let_def play_trace modelLookAt_trace emit_def
          split: option.splits if_splits)
  then show ?thesis using useFrame_trace by blast
qed

theorem height_preserved_witness:
  "SetNextKinematicTranslation
      (V3 (Num (1351079888211149 / 1125899906842624)) (Num 7)
          (Num (3602879701896397 / 2251799813685248)))
     \<in> set (frameEffects ((surroundings (Some (point 3 0 4)) (Some (point 0 7 0)) 16)\<lparr>model := True\<rparr>)
              (Num (1 / 2)) (init (point 0 7 0)))
   \<and> (\<exists>g. rigid ((surroundings (Some (point 3 0 4)) (Some (point 0 7 0)) 16)\<lparr>model := True\<rparr>) = Some g
          \<and> vy (V3 (Num (1351079888211149 / 1125899906842624)) (Num 7)
                    (Num (3602879701896397 / 2251799813685248))) = vy g)"
proof -
  have m: "SetNextKinematicTranslation
      (V3 (Num (1351079888211149 / 1125899906842624)) (Num 7)
          (Num (3602879701896397 / 2251799813685248)))
     \<in> set (frameEffects ((surroundings (Some (point 3 0 4)) (Some (point 0 7 0)) 16)\<lparr>model := True\<rparr>)
              (Num (1 / 2)) (init (point 0 7 0)))"
    by (simp add: frame_toward_3_0_4 init_def)
  show ?thesis
    using m height_preserved [of "(surroundings (Some (point 3 0 4)) (Some (point 0 7 0)) 16)\<lparr>model := True\<rparr>"
        "Num (1 / 2)" "init (point 0 7 0)"]
    by blast
qed

text \<open>
  Claim C3, amended: a frame changes nothing and calls no collaborator when the ghost is
  dead, or the target position is unavailable, or the body is unavailable.
\<close>

theorem frame_noop:
  "dead s \<or> playerRef e = None \<or> rigid e = None \<Longrightarrow> useFrame e dt s = s"
  by (auto simp: useFrame_def split: option.split)

theorem frame_noop_witness:
  "dead (run (init (point 0 0 0))
          [(surroundings None (Some (point 0 0 0)) 0, RainingChanged False),
           (surroundings None None 2200, TimerTick)])
   \<and> useFrame (surroundings (Some (point 3 0 4)) (Some (point 0 0 0)) 2216) (Num (1 / 64))
        (run (init (point 0 0 0))
          [(surroundings None (Some (point 0 0 0)) 0, RainingChanged False),
           (surroundings None None 2200, TimerTick)])
     = run (init (point 0 0 0))
          [(surroundings None (Some (point 0 0 0)) 0, RainingChanged False),
           (surroundings None None 2200, TimerTick)]"
proof -
  have d: "dead (run (init (point 0 0 0))
          [(surroundings None (Some (point 0 0 0)) 0, RainingChanged False),
           (surroundings None None 2200, TimerTick)])"
    by (simp add: closure_defs surroundings_def)
  show ?thesis
    using d frame_noop [of "run (init (point 0 0 0))
          [(surroundings None (Some (point 0 0 0)) 0, RainingChanged False),
           (surroundings None None 2200, TimerTick)]"
        "surroundings (Some (point 3 0 4)) (Some (point 0 0 0)) 2216" "Num (1 / 64)"]
    by simp
qed

text \<open>
  Claim C3 as it was stated fails for a ghost that is vanishing and not yet dead: the
  frame returns early on \<^verbatim>\<open>dead\<close> only, so with the target and the body available it
  still proposes a position and requests a clip.
\<close>

theorem frame_runs_while_vanishing:
  "lifecycleState (run (init (point 0 0 0))
       [(surroundings None (Some (point 0 0 0)) 0, RainingChanged False)]) = Vanishing
   \<and> frameEffects ((surroundings (Some (point 3 0 4)) (Some (point 0 0 0)) 16)\<lparr>model := False\<rparr>)
       (Num (1 / 2))
       (run (init (point 0 0 0)) [(surroundings None (Some (point 0 0 0)) 0, RainingChanged False)])
     = [SetNextKinematicTranslation
          (V3 (Num (1351079888211149 / 1125899906842624)) (Num 0)
              (Num (3602879701896397 / 2251799813685248))),
        ActionStop ''Idle'', ActionStop ''Armature|Action_Walk'',
        ActionStop ''Armature|Action_Atack'', ActionReset ''Armature|Action_Walk'',
        ActionFadeIn ''Armature|Action_Walk'' (round64 0.2), ActionPlay ''Armature|Action_Walk'']"
proof -
  have s: "run (init (point 0 0 0)) [(surroundings None (Some (point 0 0 0)) 0, RainingChanged False)]
      = (init (point 0 0 0))
          \<lparr>vanishing := True, timers := [(2200, True)],
           trace := [SetEnabled False, SetTimeout (Num 2200)]\<rparr>"
    by (simp add: rainingEffect_def startVanish_def init_def emit_def Let_def surroundings_def
          point_def)
  show ?thesis
    unfolding s by (simp add: frame_toward_3_0_4 lifecycleState_def init_def)
qed

text \<open>
  Claim C8. Requesting the clip that is current does nothing. Requesting another clip
  that exists stops every clip, resets the requested one, fades it in over 0.2 seconds,
  plays it and makes it current; requesting it a second time does nothing, so the two
  requests together start it once. In every case a repeated request changes nothing.
\<close>

theorem play_dedup:
  "(curr s = name \<longrightarrow> play e name s = s)
   \<and> (curr s \<noteq> name \<and> name \<in> set (actions e) \<longrightarrow>
        play e name s =
          s\<lparr>curr := name,
            trace := trace s @ map ActionStop (actions e)
                       @ [ActionReset name, ActionFadeIn name (round64 0.2), ActionPlay name]\<rparr>
        \<and> count_list (trace (play e name (play e name s))) (ActionPlay name)
            = count_list (trace s) (ActionPlay name) + 1)
   \<and> play e name (play e name s) = play e name s"
proof -
  have "count_list (map ActionStop xs) (ActionPlay name) = 0" for xs
    by (induction xs) auto
  then show ?thesis
    by (simp add: play_def emit_def)
qed

theorem play_dedup_witness:
  "curr (init (point 0 0 0)) \<noteq> ''Armature|Action_Walk''
   \<and> ''Armature|Action_Walk'' \<in> set (actions (surroundings None None 0))
   \<and> count_list (trace (play (surroundings None None 0) ''Armature|Action_Walk''
        (play (surroundings None None 0) ''Armature|Action_Walk'' (init (point 0 0 0)))))
        (ActionPlay ''Armature|Action_Walk'') = 1
   \<and> curr (play (surroundings None None 0) ''Armature|Action_Walk'' (init (point 0 0 0)))
        = ''Armature|Action_Walk''
   \<and> play (surroundings None None 0) ''Armature|Action_Walk''
        (play (surroundings None None 0) ''Armature|Action_Walk'' (init (point 0 0 0)))
       = play (surroundings None None 0) ''Armature|Action_Walk'' (init (point 0 0 0))"
  using play_dedup [of "init (point 0 0 0)" "''Armature|Action_Walk''" "surroundings None None 0"]
  by (simp add: init_def surroundings_def clips_def play_def emit_def)

subsection \<open>Entering Vanishing\<close>









subsection \<open>The health bar\<close>

lemma js_sub_le_10:
  "js_le h (Num 10) \<Longrightarrow> js_le (Num 0) d \<Longrightarrow> js_le (js_sub h d) (Num 10)"
  by (cases h; cases d) (simp_all add: js_sub_def round64_le_10)

lemma handleHit_hp_le:
  "js_le (hp s) (Num 10) \<Longrightarrow> js_le (Num 0) d \<Longrightarrow> js_le (hp (handleHit c e d s)) (Num 10)"
  by (simp add: handleHit_fields js_sub_le_10)

lemma drain_hp_le:
  "list_all harmful others \<Longrightarrow> js_le (hp s) (Num 10) \<Longrightarrow> js_le (hp (drain c e others s)) (Num 10)"
  by (induction others arbitrary: s)
     (auto simp: onIntersectionEnter_def harmful_def handleHit_hp_le)

lemma step_hp_le:
  "damaging ev \<Longrightarrow> js_le (hp s) (Num 10) \<Longrightarrow> js_le (hp (step e ev s)) (Num 10)"
  by (cases ev)
     (auto simp: spawnEffect_fields drain_hp_le useFrame_fields
        rainingEffect_def startVanish_fields runTimeout_fields)

lemma run_hp_le:
  "\<forall>x\<in>set evs. damaging (snd x) \<Longrightarrow> js_le (hp s) (Num 10) \<Longrightarrow> js_le (hp (run s evs)) (Num 10)"
  by (induction evs arbitrary: s) (auto simp: step_hp_le)

lemma fraction_range:
  assumes "js_le h (Num 10)" "\<not> js_le h (Num 0)"
  shows "js_le (Num 0) (js_div h (Num 10)) \<and> js_le (js_div h (Num 10)) (Num 1)"
proof -
  obtain y where h: "h = Num y" and y: "0 < y" "y \<le> 10"
    using assms by (cases h) auto
  show ?thesis
    unfolding h using y by (simp add: round64_ge_0 round64_le_1)
qed

text \<open>
  Claim C9. Over every sequence of events none of whose hits carries a negative damage,
  whenever the health bar is drawn (the ghost is neither vanishing nor dead) the fraction
  it is given, \<open>hp / MAX_HP\<close>, lies between 0 and 1.
\<close>

theorem health_fraction_shown:
  assumes "\<forall>x\<in>set evs. damaging (snd x)"
    and "healthBar (run (init sp) evs) = Some f"
  shows "f = js_div (hp (run (init sp) evs)) MAX_HP \<and> js_le (Num 0) f \<and> js_le f (Num 1)"
proof -
  let ?s = "run (init sp) evs"
  have v: "\<not> vanishing ?s" and f: "f = js_div (hp ?s) MAX_HP"
    using assms(2) by (auto simp: healthBar_def healthFraction_def split: if_splits)
  have "\<not> js_le (hp ?s) (Num 0)"
    using inv_run [OF inv_init, of sp evs] v by (auto simp: lifecycle_inv_def)
  moreover have "js_le (hp ?s) (Num 10)"
    using run_hp_le [OF assms(1), of "init sp"] by (simp add: init_def MAX_HP_def)
  ultimately show ?thesis using f fraction_range by (simp add: MAX_HP_def)
qed

theorem health_fraction_shown_witness:
  "damaging (Intersections [magic (Some (Num 5))])
   \<and> healthBar (run (init (point 0 0 0))
        [(surroundings None (Some (point 0 0 0)) 0, Intersections [magic (Some (Num 5))])])
       = Some (Num (1 / 2))
   \<and> js_le (Num 0) (Num (1 / 2)) \<and> js_le (Num (1 / 2)) (Num 1)"
proof -
  have d: "damaging (Intersections [magic (Some (Num 5))])"
    by (simp add: harmful_def magic_def)
  then have a: "\<forall>x\<in>set [(surroundings None (Some (point 0 0 0)) 0,
       Intersections [magic (Some (Num 5))])]. damaging (snd x)"
    by simp
  have b: "healthBar (run (init (point 0 0 0))
        [(surroundings None (Some (point 0 0 0)) 0, Intersections [magic (Some (Num 5))])])
       = Some (Num (1 / 2))"
    by (simp add: healthBar_def healthFraction_def closure_defs magic_def MAX_HP_def js_sub_def)
  have "js_le (Num 0) (Num (1 / 2)) \<and> js_le (Num (1 / 2)) (Num 1)"
    using health_fraction_shown [OF a b] by blast
  with d b show ?thesis by blast
qed

end
